theory Spec2Isabelle
  imports Main
begin

section \<open>Values of the program\<close>

text \<open>
  The program is \<^verbatim>\<open>admin-api-examples.py\<close>: a class \<^verbatim>\<open>PlatformAdminManager\<close> with five
  single-instance operations and two bulk loops, and a command-line entry point \<^verbatim>\<open>main\<close>.
  Everything the operations return, send and print is a JSON-like Python value.
\<close>

datatype json =
    JNull
  | JBool bool
  | JInt int
  | JFloat string
  | JStr string
  | JArr "json list"
  | JObj "(string \<times> json) list"

text \<open>
  A Python \<^verbatim>\<open>dict\<close> keeps its keys in insertion order and holds each key once. It is an
  association list; \<^verbatim>\<open>d[k] = v\<close> overwrites the value of a key that is present, leaving the
  key where it stands, and appends a key that is new.
\<close>

type_synonym ('k, 'v) pydict = "('k \<times> 'v) list"

fun dict_setitem :: "('k, 'v) pydict \<Rightarrow> 'k \<Rightarrow> 'v \<Rightarrow> ('k, 'v) pydict" where
  "dict_setitem [] k v = [(k, v)]"
| "dict_setitem ((k', v') # d) k v =
     (if k' = k then (k, v) # d else (k', v') # dict_setitem d k v)"

definition dict_keys :: "('k, 'v) pydict \<Rightarrow> 'k list" where
  "dict_keys d = map fst d"

definition dict_get :: "('k, 'v) pydict \<Rightarrow> 'k \<Rightarrow> 'v option" where
  "dict_get d k = map_of d k"

section \<open>Exceptions\<close>

text \<open>
  The exceptions the library calls of the program can end in. All of them derive from
  \<^verbatim>\<open>Exception\<close> but the last two, which derive from \<^verbatim>\<open>BaseException\<close> only and which
  \<^verbatim>\<open>except Exception\<close> therefore lets through.
\<close>

datatype exc_class =
    ConnectionError
  | Timeout
  | HTTPError
  | JSONDecodeError
  | InvalidJSONError
  | FileNotFoundError
  | OtherException
  | KeyboardInterrupt
  | SystemExit

fun derives_from_Exception :: "exc_class \<Rightarrow> bool" where
  "derives_from_Exception KeyboardInterrupt = False"
| "derives_from_Exception SystemExit = False"
| "derives_from_Exception _ = True"

text \<open>An exception object: its class and what \<^verbatim>\<open>str(e)\<close> gives.\<close>

datatype py_exception = Raised (exc_class: exc_class) (exc_str: string)

section \<open>The outside world\<close>

datatype http_method = GET | POST

text \<open>What a call of \<^verbatim>\<open>requests.get\<close> or \<^verbatim>\<open>requests.post\<close> is given.\<close>

record request =
  req_method :: http_method
  req_url :: string
  req_headers :: "(string, string) pydict"
  req_json :: "json option"
  req_timeout :: nat

text \<open>
  A \<^verbatim>\<open>requests.Response\<close>: the status line, the URL it answers, and what its method
  \<^verbatim>\<open>json()\<close> does: return the parsed body, or raise.
\<close>

record response =
  status_code :: int
  reason :: string
  resp_url :: string
  resp_json :: "py_exception + json"

text \<open>
  The observable effects, in the order they happen: a line printed on standard output,
  and an HTTP request sent.
\<close>

datatype event = is_Print: Print string | is_Request: Request request

type_synonym world = "event list"

definition n_requests :: "world \<Rightarrow> nat" where
  "n_requests w = length (filter is_Request w)"

text \<open>
  The environment is what the program cannot decide: how the network answers the
  \<open>n\<close>-th request of a run (a response, or an exception raised by \<^verbatim>\<open>requests\<close>), what
  opening and reading a file gives, and the two functions of the \<^verbatim>\<open>json\<close> module.
\<close>

record env =
  net :: "nat \<Rightarrow> request \<Rightarrow> py_exception + response"
  open_read :: "string \<Rightarrow> py_exception + string"
  json_load :: "string \<Rightarrow> py_exception + json"
  json_dumps :: "json \<Rightarrow> string"

section \<open>Computations with effects and exceptions\<close>

type_synonym 'a io = "world \<Rightarrow> (py_exception + 'a) \<times> world"

definition io_return :: "'a \<Rightarrow> 'a io" where
  "io_return v w = (Inr v, w)"

definition io_lift :: "py_exception + 'a \<Rightarrow> 'a io" where
  "io_lift r w = (r, w)"

definition io_bind :: "'a io \<Rightarrow> ('a \<Rightarrow> 'b io) \<Rightarrow> 'b io" where
  "io_bind m f w = (case m w of (Inl e, w') \<Rightarrow> (Inl e, w') | (Inr v, w') \<Rightarrow> f v w')"

text \<open>\<^verbatim>\<open>try: body  except Exception as e: handler\<close>\<close>

definition try_except_Exception :: "'a io \<Rightarrow> (py_exception \<Rightarrow> 'a io) \<Rightarrow> 'a io" where
  "try_except_Exception body handler w =
     (case body w of
        (Inl e, w') \<Rightarrow>
          if derives_from_Exception (exc_class e) then handler e w' else (Inl e, w')
      | (Inr v, w') \<Rightarrow> (Inr v, w'))"

definition py_print :: "string \<Rightarrow> unit io" where
  "py_print s w = (Inr (), w @ [Print s])"

definition requests_get ::
  "env \<Rightarrow> string \<Rightarrow> (string, string) pydict \<Rightarrow> nat \<Rightarrow> response io" where
  "requests_get env u hdrs tmo w =
     (let req = \<lparr>req_method = GET, req_url = u, req_headers = hdrs,
                 req_json = None, req_timeout = tmo\<rparr>
      in (net env (n_requests w) req, w @ [Request req]))"

definition requests_post ::
  "env \<Rightarrow> string \<Rightarrow> (string, string) pydict \<Rightarrow> json \<Rightarrow> nat \<Rightarrow> response io" where
  "requests_post env u hdrs body tmo w =
     (let req = \<lparr>req_method = POST, req_url = u, req_headers = hdrs,
                 req_json = Some body, req_timeout = tmo\<rparr>
      in (net env (n_requests w) req, w @ [Request req]))"

text \<open>Python's \<^verbatim>\<open>str\<close> of an integer, as the f-string of \<^verbatim>\<open>raise_for_status\<close> uses it.\<close>

definition digit_char :: "nat \<Rightarrow> char" where
  "digit_char d = ''0123456789'' ! d"

function str_nat :: "nat \<Rightarrow> string" where
  "str_nat n = (if n < 10 then [digit_char n] else str_nat (n div 10) @ [digit_char (n mod 10)])"
  by pat_completeness auto
termination
  by (relation "measure id") auto

declare str_nat.simps [simp del]

definition str_int :: "int \<Rightarrow> string" where
  "str_int i = (if i < 0 then ''-'' @ str_nat (nat (- i)) else str_nat (nat i))"

text \<open>
  \<^verbatim>\<open>Response.raise_for_status\<close> of the \<^verbatim>\<open>requests\<close> library: it builds a message for a
  status from 400 to 499 (client error) and from 500 to 599 (server error), and raises
  \<^verbatim>\<open>HTTPError\<close> with it when it built one. Any other status returns normally.
\<close>

definition raise_for_status :: "response \<Rightarrow> py_exception + unit" where
  "raise_for_status r =
     (let http_error_msg =
        (if 400 \<le> status_code r \<and> status_code r < 500 then
           str_int (status_code r) @ '' Client Error: '' @ reason r @ '' for url: '' @ resp_url r
         else if 500 \<le> status_code r \<and> status_code r < 600 then
           str_int (status_code r) @ '' Server Error: '' @ reason r @ '' for url: '' @ resp_url r
         else [])
      in if http_error_msg \<noteq> [] then Inl (Raised HTTPError http_error_msg) else Inr ())"

section \<open>PlatformAdminManager\<close>

record manager =
  admin_key :: string
  headers :: "(string, string) pydict"

definition init :: "string \<Rightarrow> manager" where
  "init k =
     \<lparr>admin_key = k,
      headers = [(''Authorization'', ''Admin '' @ k), (''Content-Type'', ''application/json'')]\<rparr>"

type_synonym result = "(string, json) pydict"

definition ping :: "env \<Rightarrow> manager \<Rightarrow> string \<Rightarrow> result io" where
  "ping env self instance_url =
     try_except_Exception
       (io_bind (requests_get env (instance_url @ ''/api/admin/ping'') (headers self) 10)
          (\<lambda>response.
        io_bind (io_lift (raise_for_status response)) (\<lambda>_.
        io_bind (io_lift (resp_json response)) (\<lambda>data.
        io_return [(''status'', JStr ''success''), (''data'', data)]))))
       (\<lambda>e. io_return [(''status'', JStr ''error''), (''error'', JStr (exc_str e))])"

definition health_check :: "env \<Rightarrow> manager \<Rightarrow> string \<Rightarrow> result io" where
  "health_check env self instance_url =
     try_except_Exception
       (io_bind (requests_get env (instance_url @ ''/api/admin/health'') (headers self) 30)
          (\<lambda>response.
        io_bind (io_lift (raise_for_status response)) (\<lambda>_.
        io_bind (io_lift (resp_json response)) (\<lambda>data.
        io_return [(''status'', JStr ''success''), (''data'', data)]))))
       (\<lambda>e. io_return [(''status'', JStr ''error''), (''error'', JStr (exc_str e))])"

definition system_info :: "env \<Rightarrow> manager \<Rightarrow> string \<Rightarrow> result io" where
  "system_info env self instance_url =
     try_except_Exception
       (io_bind (requests_get env (instance_url @ ''/api/admin/info'') (headers self) 15)
          (\<lambda>response.
        io_bind (io_lift (raise_for_status response)) (\<lambda>_.
        io_bind (io_lift (resp_json response)) (\<lambda>data.
        io_return [(''status'', JStr ''success''), (''data'', data)]))))
       (\<lambda>e. io_return [(''status'', JStr ''error''), (''error'', JStr (exc_str e))])"

definition deploy_integration :: "env \<Rightarrow> manager \<Rightarrow> string \<Rightarrow> json \<Rightarrow> result io" where
  "deploy_integration env self instance_url integration_config =
     try_except_Exception
       (io_bind (requests_post env (instance_url @ ''/api/admin/integrations/deploy'')
                   (headers self) integration_config 60)
          (\<lambda>response.
        io_bind (io_lift (raise_for_status response)) (\<lambda>_.
        io_bind (io_lift (resp_json response)) (\<lambda>data.
        io_return [(''status'', JStr ''success''), (''data'', data)]))))
       (\<lambda>e. io_return [(''status'', JStr ''error''), (''error'', JStr (exc_str e))])"

definition execute_migration :: "env \<Rightarrow> manager \<Rightarrow> string \<Rightarrow> json \<Rightarrow> result io" where
  "execute_migration env self instance_url migration_config =
     try_except_Exception
       (io_bind (requests_post env (instance_url @ ''/api/admin/migrations/execute'')
                   (headers self) migration_config 120)
          (\<lambda>response.
        io_bind (io_lift (raise_for_status response)) (\<lambda>_.
        io_bind (io_lift (resp_json response)) (\<lambda>data.
        io_return [(''status'', JStr ''success''), (''data'', data)]))))
       (\<lambda>e. io_return [(''status'', JStr ''error''), (''error'', JStr (exc_str e))])"

text \<open>
  The loops of the bulk operations, with the dictionary \<^verbatim>\<open>results\<close> as accumulator. An
  exception that leaves the single-instance operation leaves the loop.
\<close>

fun bulk_health_check_loop ::
  "env \<Rightarrow> manager \<Rightarrow> string list \<Rightarrow> (string, result) pydict \<Rightarrow> (string, result) pydict io" where
  "bulk_health_check_loop env self [] results = io_return results"
| "bulk_health_check_loop env self (u # instance_urls) results =
     io_bind (py_print (''Checking health for '' @ u @ ''...'')) (\<lambda>_.
     io_bind (health_check env self u) (\<lambda>r.
     bulk_health_check_loop env self instance_urls (dict_setitem results u r)))"

definition bulk_health_check ::
  "env \<Rightarrow> manager \<Rightarrow> string list \<Rightarrow> (string, result) pydict io" where
  "bulk_health_check env self instance_urls = bulk_health_check_loop env self instance_urls []"

fun bulk_deploy_integration_loop ::
  "env \<Rightarrow> manager \<Rightarrow> string list \<Rightarrow> json \<Rightarrow> (string, result) pydict \<Rightarrow>
   (string, result) pydict io" where
  "bulk_deploy_integration_loop env self [] integration_config results = io_return results"
| "bulk_deploy_integration_loop env self (u # instance_urls) integration_config results =
     io_bind (py_print (''Deploying integration to '' @ u @ ''...'')) (\<lambda>_.
     io_bind (deploy_integration env self u integration_config) (\<lambda>r.
     bulk_deploy_integration_loop env self instance_urls integration_config
       (dict_setitem results u r)))"

definition bulk_deploy_integration ::
  "env \<Rightarrow> manager \<Rightarrow> string list \<Rightarrow> json \<Rightarrow> (string, result) pydict io" where
  "bulk_deploy_integration env self instance_urls integration_config =
     bulk_deploy_integration_loop env self instance_urls integration_config []"

section \<open>The command-line entry point\<close>

text \<open>
  The namespace \<^verbatim>\<open>parse_args\<close> returns. \<^verbatim>\<open>--config-file\<close> is optional: \<open>None\<close> when it is
  not given. \<^verbatim>\<open>not args.config_file\<close> holds for \<open>None\<close> and for the empty string.
\<close>

record args =
  arg_admin_key :: string
  arg_instance :: string
  arg_action :: string
  arg_config_file :: "string option"

definition main :: "env \<Rightarrow> args \<Rightarrow> unit io" where
  "main env a =
     (let manager = init (arg_admin_key a) in
      if arg_action a = ''ping'' then
        io_bind (ping env manager (arg_instance a)) (\<lambda>result.
        py_print (json_dumps env (JObj result)))
      else if arg_action a = ''health'' then
        io_bind (health_check env manager (arg_instance a)) (\<lambda>result.
        py_print (json_dumps env (JObj result)))
      else if arg_action a = ''info'' then
        io_bind (system_info env manager (arg_instance a)) (\<lambda>result.
        py_print (json_dumps env (JObj result)))
      else if arg_action a = ''deploy'' then
        (case arg_config_file a of
           None \<Rightarrow> py_print ''--config-file required for deploy action''
         | Some path \<Rightarrow>
             if path = [] then py_print ''--config-file required for deploy action''
             else
               io_bind (io_lift (open_read env path)) (\<lambda>f.
               io_bind (io_lift (json_load env f)) (\<lambda>config.
               io_bind (deploy_integration env manager (arg_instance a) config) (\<lambda>result.
               py_print (json_dumps env (JObj result))))))
      else if arg_action a = ''migrate'' then
        (case arg_config_file a of
           None \<Rightarrow> py_print ''--config-file required for migrate action''
         | Some path \<Rightarrow>
             if path = [] then py_print ''--config-file required for migrate action''
             else
               io_bind (io_lift (open_read env path)) (\<lambda>f.
               io_bind (io_lift (json_load env f)) (\<lambda>config.
               io_bind (execute_migration env manager (arg_instance a) config) (\<lambda>result.
               py_print (json_dumps env (JObj result))))))
      else io_return ())"

section \<open>Notions used in the statements\<close>

text \<open>
  The five single-instance operations as one family, so that a property of all five is one
  statement. \<open>run\<close> calls the operation; \<open>request_of\<close> is the request the body of that
  operation hands to \<^verbatim>\<open>requests.get\<close> or \<^verbatim>\<open>requests.post\<close>.
\<close>

datatype operation =
    Ping
  | HealthCheck
  | SystemInfo
  | DeployIntegration json
  | ExecuteMigration json

fun run :: "env \<Rightarrow> manager \<Rightarrow> operation \<Rightarrow> string \<Rightarrow> result io" where
  "run env self Ping u = ping env self u"
| "run env self HealthCheck u = health_check env self u"
| "run env self SystemInfo u = system_info env self u"
| "run env self (DeployIntegration c) u = deploy_integration env self u c"
| "run env self (ExecuteMigration c) u = execute_migration env self u c"

fun request_of :: "manager \<Rightarrow> operation \<Rightarrow> string \<Rightarrow> request" where
  "request_of self Ping u =
     \<lparr>req_method = GET, req_url = u @ ''/api/admin/ping'', req_headers = headers self,
      req_json = None, req_timeout = 10\<rparr>"
| "request_of self HealthCheck u =
     \<lparr>req_method = GET, req_url = u @ ''/api/admin/health'', req_headers = headers self,
      req_json = None, req_timeout = 30\<rparr>"
| "request_of self SystemInfo u =
     \<lparr>req_method = GET, req_url = u @ ''/api/admin/info'', req_headers = headers self,
      req_json = None, req_timeout = 15\<rparr>"
| "request_of self (DeployIntegration c) u =
     \<lparr>req_method = POST, req_url = u @ ''/api/admin/integrations/deploy'',
      req_headers = headers self, req_json = Some c, req_timeout = 60\<rparr>"
| "request_of self (ExecuteMigration c) u =
     \<lparr>req_method = POST, req_url = u @ ''/api/admin/migrations/execute'',
      req_headers = headers self, req_json = Some c, req_timeout = 120\<rparr>"

text \<open>
  What the \<^verbatim>\<open>try\<close> block and its handler, the same in the five operations, make of the
  answer to the request.
\<close>

definition handler :: "py_exception \<Rightarrow> py_exception + result" where
  "handler e =
     (if derives_from_Exception (exc_class e)
      then Inr [(''status'', JStr ''error''), (''error'', JStr (exc_str e))]
      else Inl e)"

definition result_of_outcome :: "py_exception + response \<Rightarrow> py_exception + result" where
  "result_of_outcome out =
     (case out of
        Inl e \<Rightarrow> handler e
      | Inr response \<Rightarrow>
          (case raise_for_status response of
             Inl e \<Rightarrow> handler e
           | Inr _ \<Rightarrow>
               (case resp_json response of
                  Inl e \<Rightarrow> handler e
                | Inr d \<Rightarrow> Inr [(''status'', JStr ''success''), (''data'', d)])))"

text \<open>
  An environment in which every exception of the network and of \<^verbatim>\<open>Response.json\<close>
  derives from \<^verbatim>\<open>Exception\<close>: no call is interrupted from outside.
\<close>

definition raises_Exceptions_only :: "env \<Rightarrow> bool" where
  "raises_Exceptions_only env =
     (\<forall>n req.
        case net env n req of
          Inl e \<Rightarrow> derives_from_Exception (exc_class e)
        | Inr r \<Rightarrow>
            (case resp_json r of
               Inl e \<Rightarrow> derives_from_Exception (exc_class e)
             | Inr _ \<Rightarrow> True))"

text \<open>
  The operation table of the specification, section 4.1: method, path, timeout in seconds
  and body of each operation, and the two headers of its contract.
\<close>

fun spec_method :: "operation \<Rightarrow> http_method" where
  "spec_method Ping = GET"
| "spec_method HealthCheck = GET"
| "spec_method SystemInfo = GET"
| "spec_method (DeployIntegration c) = POST"
| "spec_method (ExecuteMigration c) = POST"

fun spec_path :: "operation \<Rightarrow> string" where
  "spec_path Ping = ''/api/admin/ping''"
| "spec_path HealthCheck = ''/api/admin/health''"
| "spec_path SystemInfo = ''/api/admin/info''"
| "spec_path (DeployIntegration c) = ''/api/admin/integrations/deploy''"
| "spec_path (ExecuteMigration c) = ''/api/admin/migrations/execute''"

fun spec_timeout :: "operation \<Rightarrow> nat" where
  "spec_timeout Ping = 10"
| "spec_timeout HealthCheck = 30"
| "spec_timeout SystemInfo = 15"
| "spec_timeout (DeployIntegration c) = 60"
| "spec_timeout (ExecuteMigration c) = 120"

fun spec_body :: "operation \<Rightarrow> json option" where
  "spec_body (DeployIntegration c) = Some c"
| "spec_body (ExecuteMigration c) = Some c"
| "spec_body _ = None"

definition spec_request :: "string \<Rightarrow> operation \<Rightarrow> string \<Rightarrow> request" where
  "spec_request credential opn base =
     \<lparr>req_method = spec_method opn,
      req_url = base @ spec_path opn,
      req_headers =
        [(''Authorization'', ''Admin '' @ credential), (''Content-Type'', ''application/json'')],
      req_json = spec_body opn,
      req_timeout = spec_timeout opn\<rparr>"

text \<open>A list without its repetitions: every element where it first occurs.\<close>

fun first_occurrences :: "'a list \<Rightarrow> 'a list" where
  "first_occurrences [] = []"
| "first_occurrences (x # xs) = x # first_occurrences (filter (\<lambda>y. y \<noteq> x) xs)"

text \<open>The shape of a result: the invariant of the dictionaries the operations return.\<close>

fun is_JStr :: "json \<Rightarrow> bool" where
  "is_JStr (JStr s) = True"
| "is_JStr _ = False"

definition result_shape :: "result \<Rightarrow> bool" where
  "result_shape r =
     ((dict_get r ''status'' = Some (JStr ''success'') \<or>
       dict_get r ''status'' = Some (JStr ''error'')) \<and>
      ((dict_get r ''data'' \<noteq> None) = (dict_get r ''status'' = Some (JStr ''success''))) \<and>
      ((dict_get r ''error'' \<noteq> None) = (dict_get r ''status'' = Some (JStr ''error''))) \<and>
      (case dict_get r ''error'' of None \<Rightarrow> True | Some m \<Rightarrow> is_JStr m) \<and>
      distinct (dict_keys r))"

text \<open>
  What a bulk operation prints and sends for a list of instances: for each instance in
  turn, its progress line and then its request.
\<close>

definition bulk_health_events :: "manager \<Rightarrow> string list \<Rightarrow> event list" where
  "bulk_health_events self us =
     concat (map (\<lambda>u. [Print (''Checking health for '' @ u @ ''...''),
                        Request (request_of self HealthCheck u)]) us)"

definition bulk_deploy_events :: "manager \<Rightarrow> json \<Rightarrow> string list \<Rightarrow> event list" where
  "bulk_deploy_events self c us =
     concat (map (\<lambda>u. [Print (''Deploying integration to '' @ u @ ''...''),
                        Request (request_of self (DeployIntegration c) u)]) us)"

text \<open>
  What the \<^verbatim>\<open>requests\<close> library transmits as the body of a call, from the \<^verbatim>\<open>json=\<close> argument
  (\<^verbatim>\<open>PreparedRequest.prepare_body\<close>: \<^verbatim>\<open>if not data and json is not None\<close>, the body is
  \<^verbatim>\<open>dumps(json, allow_nan=False)\<close>). Python's \<^verbatim>\<open>None\<close> is what \<^verbatim>\<open>json.load\<close> gives for the
  JSON value \<^verbatim>\<open>null\<close>, so a call with \<^verbatim>\<open>json=None\<close> transmits no body. \<^verbatim>\<open>json.load\<close> reads
  the literals \<^verbatim>\<open>NaN\<close>, \<^verbatim>\<open>Infinity\<close> and \<^verbatim>\<open>-Infinity\<close> as floats, whose \<^verbatim>\<open>repr\<close> is \<^verbatim>\<open>nan\<close>,
  \<^verbatim>\<open>inf\<close> and \<^verbatim>\<open>-inf\<close>; with \<^verbatim>\<open>allow_nan=False\<close> a value that holds one of them is refused
  with \<^verbatim>\<open>InvalidJSONError\<close> and nothing is transmitted.
\<close>

fun json_finite :: "json \<Rightarrow> bool" where
  "json_finite (JFloat s) = (s \<noteq> ''nan'' \<and> s \<noteq> ''inf'' \<and> s \<noteq> ''-inf'')"
| "json_finite (JArr xs) = list_all json_finite xs"
| "json_finite (JObj kvs) = list_all (\<lambda>kv. json_finite (snd kv)) kvs"
| "json_finite _ = True"

definition transmitted_body :: "request \<Rightarrow> py_exception + json option" where
  "transmitted_body req =
     (case req_json req of
        None \<Rightarrow> Inr None
      | Some c \<Rightarrow>
          if c = JNull then Inr None
          else if json_finite c then Inr (Some c)
          else Inl (Raised InvalidJSONError
                 ''Out of range float values are not JSON compliant''))"

text \<open>
  The loop of the two bulk operations with its progress line and its operation as
  parameters; the two loops above are its instances (lemmas \<open>bulk_health_check_loop_eq\<close>
  and \<open>bulk_deploy_integration_loop_eq\<close>).
\<close>

fun bulk_loop ::
  "(string \<Rightarrow> string) \<Rightarrow> (string \<Rightarrow> result io) \<Rightarrow> string list \<Rightarrow> (string, result) pydict \<Rightarrow>
   (string, result) pydict io" where
  "bulk_loop line f [] results = io_return results"
| "bulk_loop line f (u # us) results =
     io_bind (py_print (line u)) (\<lambda>_.
     io_bind (f u) (\<lambda>r. bulk_loop line f us (dict_setitem results u r)))"

section \<open>Example environments\<close>

text \<open>
  Concrete answers of the network, for the examples below: a response with a given status
  and JSON body, a refused connection, a body that is not JSON, and a network whose second
  request is refused, one whose second request is interrupted from the keyboard, and one
  that answers every request with its number.
\<close>

definition json_response :: "int \<Rightarrow> string \<Rightarrow> json \<Rightarrow> request \<Rightarrow> response" where
  "json_response st rs body req =
     \<lparr>status_code = st, reason = rs, resp_url = req_url req, resp_json = Inr body\<rparr>"

definition example_env :: "(nat \<Rightarrow> request \<Rightarrow> py_exception + response) \<Rightarrow> env" where
  "example_env answer =
     \<lparr>net = answer,
      open_read = (\<lambda>path.
        if path = ''config.json'' then Inr ''{\"version\": 2}''
        else if path = ''broken.json'' then Inr ''{\"version\": ''
        else Inl (Raised FileNotFoundError ''[Errno 2] No such file or directory'')),
      json_load = (\<lambda>s.
        if s = ''{\"version\": 2}'' then Inr (JObj [(''version'', JInt 2)])
        else Inl (Raised JSONDecodeError ''Expecting value'')),
      json_dumps = (\<lambda>j. ''<json>'')\<rparr>"

definition net_status :: "int \<Rightarrow> string \<Rightarrow> json \<Rightarrow> nat \<Rightarrow> request \<Rightarrow> py_exception + response" where
  "net_status st rs body n req = Inr (json_response st rs body req)"

definition net_refused :: "nat \<Rightarrow> request \<Rightarrow> py_exception + response" where
  "net_refused n req = Inl (Raised ConnectionError ''Connection refused'')"

definition net_not_json :: "nat \<Rightarrow> request \<Rightarrow> py_exception + response" where
  "net_not_json n req =
     Inr \<lparr>status_code = 200, reason = ''OK'', resp_url = req_url req,
          resp_json = Inl (Raised JSONDecodeError ''Expecting value: line 1 column 1 (char 0)'')\<rparr>"

definition net_second_refused :: "json \<Rightarrow> nat \<Rightarrow> request \<Rightarrow> py_exception + response" where
  "net_second_refused body n req =
     (if n = 1 then Inl (Raised ConnectionError ''Connection refused'')
      else Inr (json_response 200 ''OK'' body req))"

definition net_second_interrupted ::
  "json \<Rightarrow> nat \<Rightarrow> request \<Rightarrow> py_exception + response" where
  "net_second_interrupted body n req =
     (if n = 1 then Inl (Raised KeyboardInterrupt [])
      else Inr (json_response 200 ''OK'' body req))"

definition net_counting :: "nat \<Rightarrow> request \<Rightarrow> py_exception + response" where
  "net_counting n req = Inr (json_response 200 ''OK'' (JInt (int n)) req)"

definition demo_config :: json where
  "demo_config =
     JObj [(''integrationName'', JStr ''enhanced-security-monitoring''),
           (''version'', JStr ''2.1.0''),
           (''defaultConfig'', JObj [(''enabled'', JBool True)])]"

definition demo_args :: "string \<Rightarrow> string option \<Rightarrow> args" where
  "demo_args action path =
     \<lparr>arg_admin_key = ''secret'', arg_instance = ''https://a.example.com'',
      arg_action = action, arg_config_file = path\<rparr>"

definition healthy :: json where
  "healthy =
     JObj [(''success'', JBool True),
           (''data'', JObj [(''summary'',
              JObj [(''systemStatus'', JStr ''healthy''), (''totalClients'', JInt 12)])])]"

section \<open>The operations as functions of the network's answer\<close>

text \<open>
  Each operation sends exactly one request and returns what \<open>result_of_outcome\<close> makes of
  the answer to it.
\<close>

lemma try_body_eq:
  "try_except_Exception
       (io_bind (\<lambda>w. (net env (n_requests w) req, w @ [Request req]))
          (\<lambda>response.
        io_bind (io_lift (raise_for_status response)) (\<lambda>_.
        io_bind (io_lift (resp_json response)) (\<lambda>data.
        io_return [(''status'', JStr ''success''), (''data'', data)]))))
       (\<lambda>e. io_return [(''status'', JStr ''error''), (''error'', JStr (exc_str e))]) w
   = (result_of_outcome (net env (n_requests w) req), w @ [Request req])"
  by (simp add: try_except_Exception_def io_bind_def io_lift_def io_return_def
      result_of_outcome_def handler_def split: sum.splits)

lemma requests_get_fun:
  "requests_get env u h t =
     (\<lambda>w. (net env (n_requests w)
             \<lparr>req_method = GET, req_url = u, req_headers = h, req_json = None, req_timeout = t\<rparr>,
           w @ [Request \<lparr>req_method = GET, req_url = u, req_headers = h, req_json = None,
                          req_timeout = t\<rparr>]))"
  by (rule ext) (simp add: requests_get_def Let_def)

lemma requests_post_fun:
  "requests_post env u h c t =
     (\<lambda>w. (net env (n_requests w)
             \<lparr>req_method = POST, req_url = u, req_headers = h, req_json = Some c,
              req_timeout = t\<rparr>,
           w @ [Request \<lparr>req_method = POST, req_url = u, req_headers = h, req_json = Some c,
                          req_timeout = t\<rparr>]))"
  by (rule ext) (simp add: requests_post_def Let_def)

lemma ping_eq:
  "ping env self u w =
     (result_of_outcome (net env (n_requests w) (request_of self Ping u)),
      w @ [Request (request_of self Ping u)])"
  by (simp add: ping_def requests_get_fun try_body_eq)

lemma health_check_eq:
  "health_check env self u w =
     (result_of_outcome (net env (n_requests w) (request_of self HealthCheck u)),
      w @ [Request (request_of self HealthCheck u)])"
  by (simp add: health_check_def requests_get_fun try_body_eq)

lemma system_info_eq:
  "system_info env self u w =
     (result_of_outcome (net env (n_requests w) (request_of self SystemInfo u)),
      w @ [Request (request_of self SystemInfo u)])"
  by (simp add: system_info_def requests_get_fun try_body_eq)

lemma deploy_integration_eq:
  "deploy_integration env self u c w =
     (result_of_outcome (net env (n_requests w) (request_of self (DeployIntegration c) u)),
      w @ [Request (request_of self (DeployIntegration c) u)])"
  by (simp add: deploy_integration_def requests_post_fun try_body_eq)

lemma execute_migration_eq:
  "execute_migration env self u c w =
     (result_of_outcome (net env (n_requests w) (request_of self (ExecuteMigration c) u)),
      w @ [Request (request_of self (ExecuteMigration c) u)])"
  by (simp add: execute_migration_def requests_post_fun try_body_eq)

lemmas op_eq =
  ping_eq health_check_eq system_info_eq deploy_integration_eq execute_migration_eq

lemma run_eq:
  "run env self opn u w =
     (result_of_outcome (net env (n_requests w) (request_of self opn u)),
      w @ [Request (request_of self opn u)])"
  by (cases opn) (simp_all add: op_eq)

lemma raise_for_status_cases:
  "raise_for_status r =
     (if 400 \<le> status_code r \<and> status_code r < 500 then
        Inl (Raised HTTPError
          (str_int (status_code r) @ '' Client Error: '' @ reason r @ '' for url: '' @ resp_url r))
      else if 500 \<le> status_code r \<and> status_code r < 600 then
        Inl (Raised HTTPError
          (str_int (status_code r) @ '' Server Error: '' @ reason r @ '' for url: '' @ resp_url r))
      else Inr ())"
  by (simp add: raise_for_status_def Let_def)

lemma raise_for_status_Exception:
  "raise_for_status r = Inl e \<Longrightarrow> derives_from_Exception (exc_class e)"
  by (auto simp: raise_for_status_cases split: if_splits)

lemma result_of_outcome_raise:
  "derives_from_Exception (exc_class e) \<Longrightarrow>
   result_of_outcome (Inl e) = Inr [(''status'', JStr ''error''), (''error'', JStr (exc_str e))]"
  by (simp add: result_of_outcome_def handler_def)

lemma result_of_outcome_4xx_5xx:
  "400 \<le> status_code r \<Longrightarrow> status_code r < 600 \<Longrightarrow>
   result_of_outcome (Inr r) =
     Inr [(''status'', JStr ''error''),
          (''error'', JStr (str_int (status_code r) @
             (if status_code r < 500 then '' Client Error: '' else '' Server Error: '') @
             reason r @ '' for url: '' @ resp_url r))]"
  by (simp add: result_of_outcome_def handler_def raise_for_status_cases)

lemma result_of_outcome_other:
  "\<not> (400 \<le> status_code r \<and> status_code r < 600) \<Longrightarrow>
   result_of_outcome (Inr r) =
     (case resp_json r of
        Inl e \<Rightarrow> handler e
      | Inr d \<Rightarrow> Inr [(''status'', JStr ''success''), (''data'', d)])"
  by (auto simp: result_of_outcome_def raise_for_status_cases)

lemma result_of_outcome_Inr:
  assumes "raises_Exceptions_only env"
  shows "\<exists>r. result_of_outcome (net env n req) = Inr r"
proof -
  from assms have h: "case net env n req of
          Inl e \<Rightarrow> derives_from_Exception (exc_class e)
        | Inr r \<Rightarrow> (case resp_json r of Inl e \<Rightarrow> derives_from_Exception (exc_class e) | Inr _ \<Rightarrow> True)"
    unfolding raises_Exceptions_only_def by blast
  show ?thesis
  proof (cases "net env n req")
    case (Inl e)
    with h show ?thesis by (simp add: result_of_outcome_def handler_def)
  next
    case (Inr r)
    show ?thesis
    proof (cases "raise_for_status r")
      case (Inl e)
      with Inr raise_for_status_Exception[OF Inl] show ?thesis
        by (simp add: result_of_outcome_def handler_def)
    next
      case u: (Inr u)
      with Inr h show ?thesis
        by (cases "resp_json r") (simp_all add: result_of_outcome_def handler_def)
    qed
  qed
qed

lemma str_int_examples:
  "str_int 503 = ''503''" "str_int 404 = ''404''"
  by (simp_all add: str_int_def str_nat.simps digit_char_def)

lemma n_requests_Nil [simp]: "n_requests [] = 0"
  by (simp add: n_requests_def)

section \<open>Dictionaries and the bulk loop\<close>

lemma dict_keys_setitem:
  "dict_keys (dict_setitem d k v) =
     (if k \<in> set (dict_keys d) then dict_keys d else dict_keys d @ [k])"
  by (induction d) (force simp: dict_keys_def)+

lemma dict_get_setitem:
  "dict_get (dict_setitem d k v) k' = (if k' = k then Some v else dict_get d k')"
  by (induction d) (auto simp: dict_get_def)

lemma first_occurrences_set [simp]: "set (first_occurrences xs) = set xs"
  by (induction xs rule: first_occurrences.induct) auto

lemma first_occurrences_distinct [simp]: "distinct (first_occurrences xs)"
  by (induction xs rule: first_occurrences.induct) auto

lemma first_occurrences_id: "distinct xs \<Longrightarrow> first_occurrences xs = xs"
proof (induction xs)
  case Nil
  then show ?case by simp
next
  case (Cons x xs)
  then have "filter (\<lambda>y. y \<noteq> x) xs = xs" by (auto intro: filter_True)
  with Cons show ?case by simp
qed

lemma fold_keys:
  "fold (\<lambda>u ks. if u \<in> set ks then ks else ks @ [u]) us ks =
     ks @ first_occurrences (filter (\<lambda>u. u \<notin> set ks) us)"
proof (induction us arbitrary: ks)
  case Nil
  then show ?case by simp
next
  case (Cons u us)
  show ?case
  proof (cases "u \<in> set ks")
    case True
    then show ?thesis using Cons.IH[of ks] by simp
  next
    case False
    have "filter (\<lambda>y. y \<noteq> u) (filter (\<lambda>u. u \<notin> set ks) us) =
          filter (\<lambda>x. x \<notin> set (ks @ [u])) us"
      by (induction us) auto
    with False show ?thesis using Cons.IH[of "ks @ [u]"] by simp
  qed
qed

lemma bulk_loop_run:
  assumes f: "\<And>u w. \<exists>r. f u w = (Inr r, w @ [Request (rq u)])"
  shows "\<exists>res. bulk_loop line f us acc w =
           (Inr res, w @ concat (map (\<lambda>u. [Print (line u), Request (rq u)]) us))"
proof (induction us arbitrary: acc w)
  case Nil
  then show ?case by (simp add: io_return_def)
next
  case (Cons u us)
  obtain r where r: "f u (w @ [Print (line u)]) = (Inr r, w @ [Print (line u)] @ [Request (rq u)])"
    using f[of u "w @ [Print (line u)]"] by auto
  from Cons[of "dict_setitem acc u r" "w @ [Print (line u), Request (rq u)]"] r
  show ?case by (simp add: io_bind_def py_print_def)
qed

lemma bulk_loop_keys:
  "bulk_loop line f us acc w = (Inr res, w') \<Longrightarrow>
   dict_keys res = fold (\<lambda>u ks. if u \<in> set ks then ks else ks @ [u]) us (dict_keys acc)"
proof (induction us arbitrary: acc w)
  case Nil
  then show ?case by (simp add: io_return_def)
next
  case (Cons u us)
  then show ?case
    by (auto simp: io_bind_def py_print_def dict_keys_setitem split: sum.splits prod.splits)
qed

lemma bulk_loop_other:
  "bulk_loop line f us acc w = (Inr res, w') \<Longrightarrow> k \<notin> set us \<Longrightarrow> dict_get res k = dict_get acc k"
proof (induction us arbitrary: acc w)
  case Nil
  then show ?case by (simp add: io_return_def)
next
  case (Cons u us)
  then show ?case
    by (auto simp: io_bind_def py_print_def dict_get_setitem split: sum.splits prod.splits)
qed

lemma bulk_loop_value:
  assumes f: "\<And>u w. \<exists>r. f u w = (Inr r, w @ [Request (rq u)])"
  shows "bulk_loop line f us acc w = (Inr res, w') \<Longrightarrow> i < length us \<Longrightarrow>
         us ! i \<notin> set (drop (Suc i) us) \<Longrightarrow>
         map_option Inr (dict_get res (us ! i)) =
           Some (fst (f (us ! i)
             (w @ concat (map (\<lambda>u. [Print (line u), Request (rq u)]) (take i us)) @
              [Print (line (us ! i))])))"
proof (induction us arbitrary: acc w i)
  case Nil
  then show ?case by simp
next
  case (Cons u us)
  obtain r where r: "f u (w @ [Print (line u)]) = (Inr r, w @ [Print (line u)] @ [Request (rq u)])"
    using f[of u "w @ [Print (line u)]"] by auto
  with Cons.prems(1) have rest:
    "bulk_loop line f us (dict_setitem acc u r) (w @ [Print (line u), Request (rq u)]) = (Inr res, w')"
    by (simp add: io_bind_def py_print_def)
  show ?case
  proof (cases i)
    case 0
    with Cons.prems(3) have "u \<notin> set us" by simp
    from bulk_loop_other[OF rest this] r 0 show ?thesis
      by (simp add: dict_get_setitem)
  next
    case (Suc j)
    with Cons.prems have "j < length us" "us ! j \<notin> set (drop (Suc j) us)" by simp_all
    from Cons.IH[OF rest this] Suc show ?thesis by simp
  qed
qed

lemma bulk_health_check_loop_eq:
  "bulk_health_check_loop env self us acc =
     bulk_loop (\<lambda>u. ''Checking health for '' @ u @ ''...'') (health_check env self) us acc"
  by (induction us arbitrary: acc) simp_all

lemma bulk_deploy_integration_loop_eq:
  "bulk_deploy_integration_loop env self us c acc =
     bulk_loop (\<lambda>u. ''Deploying integration to '' @ u @ ''...'')
       (\<lambda>u. deploy_integration env self u c) us acc"
  by (induction us arbitrary: acc) simp_all

section \<open>Results of the single-instance operations\<close>

text \<open>
  C4. For each of the five operations: when the request is answered with a status from 200
  to 299 and a body that parses as JSON, the operation returns the success result whose
  \<^verbatim>\<open>data\<close> is the parsed body.
\<close>

theorem success_on_2xx_json:
  assumes "net env (n_requests w) (request_of self opn u) = Inr r"
    and "200 \<le> status_code r" and "status_code r < 300"
    and "resp_json r = Inr body"
  shows "fst (run env self opn u w) = Inr [(''status'', JStr ''success''), (''data'', body)]"
  using assms by (simp add: run_eq result_of_outcome_other)

text \<open>
  The scenario of the specification: the health endpoint of \<^verbatim>\<open>https://a.example.com\<close>
  answers 200 with the body \<open>healthy\<close>.
\<close>

theorem success_on_2xx_json_witness:
  "net (example_env (net_status 200 ''OK'' healthy)) (n_requests [])
     (request_of (init ''secret'') HealthCheck ''https://a.example.com'') =
     Inr (json_response 200 ''OK'' healthy
            (request_of (init ''secret'') HealthCheck ''https://a.example.com'')) \<and>
   fst (run (example_env (net_status 200 ''OK'' healthy)) (init ''secret'') HealthCheck
          ''https://a.example.com'' []) =
     Inr [(''status'', JStr ''success''), (''data'', healthy)]"
proof -
  have h: "net (example_env (net_status 200 ''OK'' healthy)) (n_requests [])
     (request_of (init ''secret'') HealthCheck ''https://a.example.com'') =
     Inr (json_response 200 ''OK'' healthy
            (request_of (init ''secret'') HealthCheck ''https://a.example.com''))"
    by (simp add: example_env_def net_status_def)
  from success_on_2xx_json[OF h, of healthy] h show ?thesis
    by (simp add: json_response_def)
qed

text \<open>
  C1, as amended. For each of the five operations, a failure of the request is returned as
  the error result carrying its message, and is not raised: an exception of the transport
  (connection error, timeout; any exception that derives from \<^verbatim>\<open>Exception\<close>), a response
  with a status from 400 to 599, and a body that does not parse. A status outside 200 to
  299 that \<^verbatim>\<open>raise_for_status\<close> lets pass is no failure of its own.
\<close>

theorem failures_are_returned:
  "(net env (n_requests w) (request_of self opn u) = Inl e \<and>
      derives_from_Exception (exc_class e) \<longrightarrow>
    fst (run env self opn u w) =
      Inr [(''status'', JStr ''error''), (''error'', JStr (exc_str e))]) \<and>
   (net env (n_requests w) (request_of self opn u) = Inr r \<and>
      400 \<le> status_code r \<and> status_code r < 600 \<longrightarrow>
    fst (run env self opn u w) =
      Inr [(''status'', JStr ''error''),
           (''error'', JStr (str_int (status_code r) @
              (if status_code r < 500 then '' Client Error: '' else '' Server Error: '') @
              reason r @ '' for url: '' @ resp_url r))]) \<and>
   (net env (n_requests w) (request_of self opn u) = Inr r \<and>
      \<not> (400 \<le> status_code r \<and> status_code r < 600) \<and>
      resp_json r = Inl e \<and> derives_from_Exception (exc_class e) \<longrightarrow>
    fst (run env self opn u w) =
      Inr [(''status'', JStr ''error''), (''error'', JStr (exc_str e))])"
  by (simp add: run_eq result_of_outcome_raise result_of_outcome_4xx_5xx
      result_of_outcome_other handler_def)

text \<open>A refused connection, a 503 and a body that is not JSON.\<close>

theorem failures_are_returned_witness:
  "fst (run (example_env net_refused) (init ''secret'') Ping ''https://a.example.com'' []) =
     Inr [(''status'', JStr ''error''), (''error'', JStr ''Connection refused'')] \<and>
   fst (run (example_env (net_status 503 ''Service Unavailable'' JNull)) (init ''secret'')
          (ExecuteMigration demo_config) ''https://a.example.com'' []) =
     Inr [(''status'', JStr ''error''),
          (''error'', JStr (''503 Server Error: Service Unavailable for url: '' @
                            ''https://a.example.com/api/admin/migrations/execute''))] \<and>
   fst (run (example_env net_not_json) (init ''secret'') SystemInfo ''https://a.example.com'' []) =
     Inr [(''status'', JStr ''error''),
          (''error'', JStr ''Expecting value: line 1 column 1 (char 0)'')]"
  using
    failures_are_returned[of "example_env net_refused" "[]" "init ''secret''" Ping
      "''https://a.example.com''" "Raised ConnectionError ''Connection refused''"]
    failures_are_returned[of "example_env (net_status 503 ''Service Unavailable'' JNull)" "[]"
      "init ''secret''" "ExecuteMigration demo_config" "''https://a.example.com''" _
      "json_response 503 ''Service Unavailable'' JNull
         (request_of (init ''secret'') (ExecuteMigration demo_config) ''https://a.example.com'')"]
    failures_are_returned[of "example_env net_not_json" "[]" "init ''secret''" SystemInfo
      "''https://a.example.com''"
      "Raised JSONDecodeError ''Expecting value: line 1 column 1 (char 0)''"
      "\<lparr>status_code = 200, reason = ''OK'',
        resp_url = ''https://a.example.com/api/admin/info'',
        resp_json = Inl (Raised JSONDecodeError ''Expecting value: line 1 column 1 (char 0)'')\<rparr>"]
  by (simp add: example_env_def net_refused_def net_status_def net_not_json_def
      json_response_def str_int_examples)

text \<open>
  C1 as stated asks for the error result on every status outside 200 to 299. A response
  300 with a JSON body passes \<^verbatim>\<open>raise_for_status\<close>, and \<open>ping\<close> returns the success result.
\<close>

theorem ping_300_is_success:
  "net (example_env (net_status 300 ''Multiple Choices'' (JArr [JStr ''v1'', JStr ''v2''])))
     (n_requests []) (request_of (init ''secret'') Ping ''https://a.example.com'') =
     Inr \<lparr>status_code = 300, reason = ''Multiple Choices'',
          resp_url = ''https://a.example.com/api/admin/ping'',
          resp_json = Inr (JArr [JStr ''v1'', JStr ''v2''])\<rparr> \<and>
   fst (ping (example_env (net_status 300 ''Multiple Choices'' (JArr [JStr ''v1'', JStr ''v2''])))
          (init ''secret'') ''https://a.example.com'' []) =
     Inr [(''status'', JStr ''success''), (''data'', JArr [JStr ''v1'', JStr ''v2''])]"
  by (simp add: ping_eq example_env_def net_status_def json_response_def result_of_outcome_other
      init_def)

text \<open>
  C3, as amended. For each of the five operations, a response with a status from 400 to
  599 gives the error result with a message that is not empty. A response with any other
  status is judged by its body alone: when the body parses, the operation returns the
  success result.
\<close>

theorem status_4xx_5xx_is_failure:
  assumes "net env (n_requests w) (request_of self opn u) = Inr r"
  shows "(400 \<le> status_code r \<and> status_code r < 600 \<longrightarrow>
          (\<exists>m. m \<noteq> [] \<and>
             fst (run env self opn u w) =
               Inr [(''status'', JStr ''error''), (''error'', JStr m)])) \<and>
         (\<not> (400 \<le> status_code r \<and> status_code r < 600) \<and> resp_json r = Inr body \<longrightarrow>
          fst (run env self opn u w) =
            Inr [(''status'', JStr ''success''), (''data'', body)])"
  using assms by (simp add: run_eq result_of_outcome_4xx_5xx result_of_outcome_other)

text \<open>A 404 on the health endpoint, and a 200 on ping.\<close>

theorem status_4xx_5xx_is_failure_witness:
  "fst (run (example_env (net_status 404 ''Not Found'' JNull)) (init ''secret'') HealthCheck
          ''https://a.example.com'' []) =
     Inr [(''status'', JStr ''error''),
          (''error'', JStr (''404 Client Error: Not Found for url: '' @
                            ''https://a.example.com/api/admin/health''))] \<and>
   fst (run (example_env (net_status 200 ''OK'' healthy)) (init ''secret'') Ping
          ''https://a.example.com'' []) =
     Inr [(''status'', JStr ''success''), (''data'', healthy)]"
  using
    status_4xx_5xx_is_failure[of "example_env (net_status 404 ''Not Found'' JNull)" "[]"
      "init ''secret''" HealthCheck "''https://a.example.com''"
      "json_response 404 ''Not Found'' JNull
         (request_of (init ''secret'') HealthCheck ''https://a.example.com'')" JNull]
    status_4xx_5xx_is_failure[of "example_env (net_status 200 ''OK'' healthy)" "[]"
      "init ''secret''" Ping "''https://a.example.com''"
      "json_response 200 ''OK'' healthy
         (request_of (init ''secret'') Ping ''https://a.example.com'')" healthy]
  by (simp add: example_env_def net_status_def json_response_def op_eq
      result_of_outcome_4xx_5xx str_int_examples)

text \<open>
  C3 as stated fails at a status that is neither 2xx nor 4xx nor 5xx: the health check
  answered 305 with a JSON body returns the success result.
\<close>

theorem health_check_305_is_success:
  "net (example_env (net_status 305 ''Use Proxy'' healthy))
     (n_requests []) (request_of (init ''secret'') HealthCheck ''https://a.example.com'') =
     Inr \<lparr>status_code = 305, reason = ''Use Proxy'',
          resp_url = ''https://a.example.com/api/admin/health'',
          resp_json = Inr healthy\<rparr> \<and>
   fst (health_check (example_env (net_status 305 ''Use Proxy'' healthy))
          (init ''secret'') ''https://a.example.com'' []) =
     Inr [(''status'', JStr ''success''), (''data'', healthy)]"
  by (simp add: health_check_eq example_env_def net_status_def json_response_def
      result_of_outcome_other init_def)

section \<open>Requests\<close>

text \<open>
  C5. Each operation of a manager built from a credential sends exactly one request, and
  it is the request of the specification's table: its method, its path appended to the
  base URL, its timeout, its body, and the two headers \<^verbatim>\<open>Authorization: Admin <credential>\<close>
  and \<^verbatim>\<open>Content-Type: application/json\<close>.
\<close>

theorem issues_the_tabled_request:
  "snd (run env (init credential) opn base w) = w @ [Request (spec_request credential opn base)]"
proof -
  have "request_of (init credential) opn base = spec_request credential opn base"
    by (cases opn) (simp_all add: init_def spec_request_def)
  then show ?thesis by (simp add: run_eq)
qed

text \<open>
  C8, as amended. For a configuration that is not \<^verbatim>\<open>null\<close> and holds no float that is NaN or
  infinite, the one request \<open>deploy_integration\<close> sends is a POST whose transmitted body is
  the configuration it was given, unchanged; the same holds of \<open>execute_migration\<close>. A
  configuration \<^verbatim>\<open>null\<close> is passed as \<^verbatim>\<open>json=None\<close> and the request goes without a body; a
  configuration with a NaN or an infinite float is refused by the library and nothing is
  transmitted.
\<close>

theorem config_is_the_body_sent:
  "(config \<noteq> JNull \<and> json_finite config \<longrightarrow>
      (\<exists>req. snd (deploy_integration env self u config w) = w @ [Request req] \<and>
             req_method req = POST \<and> transmitted_body req = Inr (Some config)) \<and>
      (\<exists>req. snd (execute_migration env self u config w) = w @ [Request req] \<and>
             req_method req = POST \<and> transmitted_body req = Inr (Some config))) \<and>
   (config = JNull \<longrightarrow>
      (\<exists>req. snd (deploy_integration env self u config w) = w @ [Request req] \<and>
             req_method req = POST \<and> transmitted_body req = Inr None) \<and>
      (\<exists>req. snd (execute_migration env self u config w) = w @ [Request req] \<and>
             req_method req = POST \<and> transmitted_body req = Inr None)) \<and>
   (config \<noteq> JNull \<and> \<not> json_finite config \<longrightarrow>
      (\<exists>req. snd (deploy_integration env self u config w) = w @ [Request req] \<and>
             req_method req = POST \<and>
             transmitted_body req =
               Inl (Raised InvalidJSONError
                      ''Out of range float values are not JSON compliant'')) \<and>
      (\<exists>req. snd (execute_migration env self u config w) = w @ [Request req] \<and>
             req_method req = POST \<and>
             transmitted_body req =
               Inl (Raised InvalidJSONError
                      ''Out of range float values are not JSON compliant'')))"
  by (simp add: deploy_integration_eq execute_migration_eq transmitted_body_def)

text \<open>The demonstration's configuration, \<^verbatim>\<open>null\<close>, and a configuration with a NaN.\<close>

theorem config_is_the_body_sent_witness:
  "demo_config \<noteq> JNull \<and> json_finite demo_config \<and>
   snd (deploy_integration (example_env net_refused) (init ''secret'') ''https://a.example.com''
          demo_config []) =
     [Request (request_of (init ''secret'') (DeployIntegration demo_config)
                 ''https://a.example.com'')] \<and>
   transmitted_body (request_of (init ''secret'') (DeployIntegration demo_config)
                       ''https://a.example.com'') = Inr (Some demo_config) \<and>
   transmitted_body (request_of (init ''secret'') (ExecuteMigration JNull)
                       ''https://a.example.com'') = Inr None \<and>
   \<not> json_finite (JObj [(''threshold'', JFloat ''nan'')]) \<and>
   transmitted_body (request_of (init ''secret'')
                       (ExecuteMigration (JObj [(''threshold'', JFloat ''nan'')]))
                       ''https://a.example.com'') =
     Inl (Raised InvalidJSONError ''Out of range float values are not JSON compliant'')"
  using
    config_is_the_body_sent[of demo_config "example_env net_refused" "init ''secret''"
      "''https://a.example.com''" "[]"]
    config_is_the_body_sent[of JNull "example_env net_refused" "init ''secret''"
      "''https://a.example.com''" "[]"]
    config_is_the_body_sent[of "JObj [(''threshold'', JFloat ''nan'')]"
      "example_env net_refused" "init ''secret''" "''https://a.example.com''" "[]"]
  by (simp add: demo_config_def deploy_integration_eq transmitted_body_def)

text \<open>
  C8 as stated speaks of every configuration. A configuration file that holds \<^verbatim>\<open>null\<close> is
  loaded as \<^verbatim>\<open>None\<close>; \<open>deploy_integration\<close> passes it on as \<^verbatim>\<open>json=None\<close>, and the request
  is sent with no body, not with the body \<^verbatim>\<open>null\<close>.
\<close>

theorem null_config_sends_no_body:
  "snd (deploy_integration (example_env (net_status 200 ''OK'' healthy)) (init ''secret'')
          ''https://a.example.com'' JNull []) =
     [Request (request_of (init ''secret'') (DeployIntegration JNull) ''https://a.example.com'')] \<and>
   req_json (request_of (init ''secret'') (DeployIntegration JNull) ''https://a.example.com'') =
     Some JNull \<and>
   transmitted_body
     (request_of (init ''secret'') (DeployIntegration JNull) ''https://a.example.com'') = Inr None"
  by (simp add: deploy_integration_eq transmitted_body_def)

section \<open>The command line\<close>

lemma main_no_config:
  assumes "arg_action a = ''deploy'' \<or> arg_action a = ''migrate''"
    and "arg_config_file a = None"
  shows "main env a w =
           (Inr (), w @ [Print (''--config-file required for '' @ arg_action a @ '' action'')])"
  using assms by (auto simp: main_def py_print_def)

text \<open>
  C7. With the action \<^verbatim>\<open>deploy\<close> or \<^verbatim>\<open>migrate\<close> and no \<^verbatim>\<open>--config-file\<close>, \<open>main\<close> prints the
  usage message and returns; it sends no request.
\<close>

theorem no_config_file_no_call:
  assumes "arg_action a = ''deploy'' \<or> arg_action a = ''migrate''"
    and "arg_config_file a = None"
  shows "main env a w =
           (Inr (), w @ [Print (''--config-file required for '' @ arg_action a @ '' action'')]) \<and>
         filter is_Request (snd (main env a w)) = filter is_Request w"
  using main_no_config[OF assms] by simp

theorem no_config_file_no_call_witness:
  "main (example_env net_refused) (demo_args ''deploy'' None) [] =
     (Inr (), [Print ''--config-file required for deploy action'']) \<and>
   main (example_env net_refused) (demo_args ''migrate'' None) [] =
     (Inr (), [Print ''--config-file required for migrate action''])"
  using no_config_file_no_call[of "demo_args ''deploy'' None" "example_env net_refused" "[]"]
    no_config_file_no_call[of "demo_args ''migrate'' None" "example_env net_refused" "[]"]
  by (simp add: demo_args_def)

text \<open>
  C10, as amended. With the action \<^verbatim>\<open>deploy\<close> or \<^verbatim>\<open>migrate\<close> and a \<^verbatim>\<open>--config-file\<close> that is
  not the empty string and cannot be opened, or whose contents do not parse as JSON,
  \<open>main\<close> ends in that exception, uncaught; nothing is printed and no request is sent.
  The empty string is taken as no \<^verbatim>\<open>--config-file\<close> at all: \<open>main\<close> prints the usage message
  and returns.
\<close>

theorem unreadable_config_raises:
  "((arg_action a = ''deploy'' \<or> arg_action a = ''migrate'') \<and>
    arg_config_file a = Some path \<and> path \<noteq> [] \<and>
    (open_read env path = Inl e \<or>
     (\<exists>f. open_read env path = Inr f \<and> json_load env f = Inl e)) \<longrightarrow>
    main env a w = (Inl e, w)) \<and>
   ((arg_action a = ''deploy'' \<or> arg_action a = ''migrate'') \<and>
    arg_config_file a = Some [] \<longrightarrow>
    main env a w =
      (Inr (), w @ [Print (''--config-file required for '' @ arg_action a @ '' action'')]))"
  by (auto simp: main_def io_bind_def io_lift_def py_print_def)

text \<open>A file that is not there, a file cut short, and the empty path.\<close>

theorem unreadable_config_raises_witness:
  "main (example_env (net_status 200 ''OK'' healthy)) (demo_args ''deploy'' (Some ''missing.json'')) [] =
     (Inl (Raised FileNotFoundError ''[Errno 2] No such file or directory''), []) \<and>
   main (example_env (net_status 200 ''OK'' healthy)) (demo_args ''migrate'' (Some ''broken.json'')) [] =
     (Inl (Raised JSONDecodeError ''Expecting value''), []) \<and>
   main (example_env (net_status 200 ''OK'' healthy)) (demo_args ''migrate'' (Some [])) [] =
     (Inr (), [Print ''--config-file required for migrate action''])"
  using
    unreadable_config_raises[of "demo_args ''deploy'' (Some ''missing.json'')" "''missing.json''"
      "example_env (net_status 200 ''OK'' healthy)"
      "Raised FileNotFoundError ''[Errno 2] No such file or directory''" "[]"]
    unreadable_config_raises[of "demo_args ''migrate'' (Some ''broken.json'')" "''broken.json''"
      "example_env (net_status 200 ''OK'' healthy)"
      "Raised JSONDecodeError ''Expecting value''" "[]"]
    unreadable_config_raises[of "demo_args ''migrate'' (Some [])" "[]"
      "example_env (net_status 200 ''OK'' healthy)" _ "[]"]
  by (simp add: demo_args_def example_env_def)

text \<open>
  C10 as stated speaks of every path that names no readable file. The empty path names
  none, and with it \<open>main\<close> raises nothing: \<^verbatim>\<open>not args.config_file\<close> holds, the usage message
  is printed and \<open>main\<close> returns.
\<close>

theorem empty_config_path_prints_usage:
  "open_read (example_env (net_status 200 ''OK'' healthy)) [] =
     Inl (Raised FileNotFoundError ''[Errno 2] No such file or directory'') \<and>
   main (example_env (net_status 200 ''OK'' healthy)) (demo_args ''deploy'' (Some [])) [] =
     (Inr (), [Print ''--config-file required for deploy action''])"
  by (simp add: main_def demo_args_def example_env_def py_print_def)

section \<open>The bulk operations\<close>

text \<open>
  In an environment that raises nothing but exceptions deriving from \<^verbatim>\<open>Exception\<close>, the
  two operations of the loops return a result and send their one request.
\<close>

lemma health_check_returns:
  assumes "raises_Exceptions_only env"
  shows "\<exists>r. health_check env self u w = (Inr r, w @ [Request (request_of self HealthCheck u)])"
  using result_of_outcome_Inr[OF assms, of "n_requests w" "request_of self HealthCheck u"]
  by (auto simp: health_check_eq)

lemma deploy_integration_returns:
  assumes "raises_Exceptions_only env"
  shows "\<exists>r. deploy_integration env self u c w =
           (Inr r, w @ [Request (request_of self (DeployIntegration c) u)])"
  using result_of_outcome_Inr[OF assms, of "n_requests w" "request_of self (DeployIntegration c) u"]
  by (auto simp: deploy_integration_eq)

lemma first_occurrences_fold:
  "fold (\<lambda>u ks. if u \<in> set ks then ks else ks @ [u]) us [] = first_occurrences us"
  using fold_keys[of us "[]"] by simp

lemma bulk_loop_summary:
  assumes f: "\<And>u w. \<exists>r. f u w = (Inr r, w @ [Request (rq u)])"
  shows "\<exists>res. bulk_loop line f us [] w =
             (Inr res, w @ concat (map (\<lambda>u. [Print (line u), Request (rq u)]) us)) \<and>
           dict_keys res = first_occurrences us \<and>
           (\<forall>i<length us. us ! i \<notin> set (drop (Suc i) us) \<longrightarrow>
              map_option Inr (dict_get res (us ! i)) =
                Some (fst (f (us ! i)
                  (w @ concat (map (\<lambda>u. [Print (line u), Request (rq u)]) (take i us)) @
                   [Print (line (us ! i))]))))"
proof -
  from bulk_loop_run[of f rq line us "[]" w, OF f]
  obtain res where res: "bulk_loop line f us [] w =
      (Inr res, w @ concat (map (\<lambda>u. [Print (line u), Request (rq u)]) us))"
    by blast
  have keys: "dict_keys res = first_occurrences us"
    using bulk_loop_keys[OF res] by (simp add: first_occurrences_fold dict_keys_def)
  have vals: "\<forall>i<length us. us ! i \<notin> set (drop (Suc i) us) \<longrightarrow>
              map_option Inr (dict_get res (us ! i)) =
                Some (fst (f (us ! i)
                  (w @ concat (map (\<lambda>u. [Print (line u), Request (rq u)]) (take i us)) @
                   [Print (line (us ! i))])))"
    using bulk_loop_value[of f rq line us "[]" w res, OF f res] by blast
  from res keys vals show ?thesis by blast
qed

lemma dict_setitem_all:
  "list_all Q d \<Longrightarrow> Q (k, v) \<Longrightarrow> list_all Q (dict_setitem d k v)"
  by (induction d) auto

lemma bulk_loop_all:
  assumes f: "\<And>u w r w'. f u w = (Inr r, w') \<Longrightarrow> P r"
  shows "list_all (\<lambda>(k, r). P r) acc \<Longrightarrow> bulk_loop line f us acc w = (Inr res, w') \<Longrightarrow>
         list_all (\<lambda>(k, r). P r) res"
proof (induction us arbitrary: acc w)
  case Nil
  then show ?case by (simp add: io_return_def)
next
  case (Cons u us)
  from Cons.prems(2) obtain r w1 where
    r: "f u (w @ [Print (line u)]) = (Inr r, w1)" and
    rest: "bulk_loop line f us (dict_setitem acc u r) w1 = (Inr res, w')"
    by (auto simp: io_bind_def py_print_def split: sum.splits prod.splits)
  from f[OF r] Cons.prems(1) have "list_all (\<lambda>(k, r). P r) (dict_setitem acc u r)"
    by (simp add: dict_setitem_all)
  from Cons.IH[OF this rest] show ?case .
qed

lemma distinct_not_later:
  "distinct us \<Longrightarrow> i < length us \<Longrightarrow> us ! i \<notin> set (drop (Suc i) us)"
  by (auto simp: in_set_conv_nth nth_eq_iff_index_eq)

lemma net_counting_raises_Exceptions_only:
  "raises_Exceptions_only (example_env net_counting)"
  by (simp add: raises_Exceptions_only_def example_env_def net_counting_def json_response_def)

lemma example_env_raises_Exceptions_only:
  "raises_Exceptions_only (example_env (net_second_refused body))"
  by (simp add: raises_Exceptions_only_def example_env_def net_second_refused_def
      json_response_def)

lemmas run_examples =
  bulk_health_check_def bulk_deploy_integration_def io_bind_def io_return_def py_print_def
  health_check_eq deploy_integration_eq n_requests_def example_env_def net_second_refused_def
  json_response_def result_of_outcome_def handler_def raise_for_status_cases init_def

text \<open>
  C2, as amended. For every list of instance URLs, \<open>bulk_health_check\<close> prints the progress
  line of each instance and then sends the health request of that instance, instance
  after instance in the order of the list, and returns a dictionary. For a list without
  repetition its keys are the list, and each instance is mapped to what \<open>health_check\<close>
  returns for it at its turn, success or failure, whatever the other instances returned.
  For a list with repetitions the keys are the instances in the order of their first
  occurrence, and an instance listed more than once is mapped to the result of its last
  turn. \<open>bulk_deploy_integration\<close> does the same with \<open>deploy_integration\<close> and the one
  configuration for all instances. All this holds when no call is interrupted by an
  exception that does not derive from \<^verbatim>\<open>Exception\<close>.
\<close>

theorem bulk_in_order_and_isolated:
  assumes "raises_Exceptions_only env"
  shows
    "(\<exists>res. bulk_health_check env self us w = (Inr res, w @ bulk_health_events self us) \<and>
        dict_keys res = first_occurrences us \<and>
        (\<forall>i<length us. us ! i \<notin> set (drop (Suc i) us) \<longrightarrow>
           map_option Inr (dict_get res (us ! i)) =
             Some (fst (health_check env self (us ! i)
               (w @ bulk_health_events self (take i us) @
                [Print (''Checking health for '' @ us ! i @ ''...'')])))) \<and>
        (distinct us \<longrightarrow>
           dict_keys res = us \<and>
           (\<forall>i<length us.
              map_option Inr (dict_get res (us ! i)) =
                Some (fst (health_check env self (us ! i)
                  (w @ bulk_health_events self (take i us) @
                   [Print (''Checking health for '' @ us ! i @ ''...'')])))))) \<and>
     (\<exists>res. bulk_deploy_integration env self us c w = (Inr res, w @ bulk_deploy_events self c us) \<and>
        dict_keys res = first_occurrences us \<and>
        (\<forall>i<length us. us ! i \<notin> set (drop (Suc i) us) \<longrightarrow>
           map_option Inr (dict_get res (us ! i)) =
             Some (fst (deploy_integration env self (us ! i) c
               (w @ bulk_deploy_events self c (take i us) @
                [Print (''Deploying integration to '' @ us ! i @ ''...'')])))) \<and>
        (distinct us \<longrightarrow>
           dict_keys res = us \<and>
           (\<forall>i<length us.
              map_option Inr (dict_get res (us ! i)) =
                Some (fst (deploy_integration env self (us ! i) c
                  (w @ bulk_deploy_events self c (take i us) @
                   [Print (''Deploying integration to '' @ us ! i @ ''...'')]))))))"
proof
  from bulk_loop_summary[of "health_check env self" "request_of self HealthCheck"
      "\<lambda>u. ''Checking health for '' @ u @ ''...''" us w, OF health_check_returns[OF assms]]
  obtain res where res:
    "bulk_health_check env self us w = (Inr res, w @ bulk_health_events self us)"
    "dict_keys res = first_occurrences us"
    "\<forall>i<length us. us ! i \<notin> set (drop (Suc i) us) \<longrightarrow>
       map_option Inr (dict_get res (us ! i)) =
         Some (fst (health_check env self (us ! i)
           (w @ bulk_health_events self (take i us) @
            [Print (''Checking health for '' @ us ! i @ ''...'')])))"
    unfolding bulk_health_check_def bulk_health_check_loop_eq bulk_health_events_def
    by blast
  from res(2,3) have
    "distinct us \<longrightarrow>
       dict_keys res = us \<and>
       (\<forall>i<length us.
          map_option Inr (dict_get res (us ! i)) =
            Some (fst (health_check env self (us ! i)
              (w @ bulk_health_events self (take i us) @
               [Print (''Checking health for '' @ us ! i @ ''...'')]))))"
    by (simp add: first_occurrences_id distinct_not_later)
  with res show
    "\<exists>res. bulk_health_check env self us w = (Inr res, w @ bulk_health_events self us) \<and>
        dict_keys res = first_occurrences us \<and>
        (\<forall>i<length us. us ! i \<notin> set (drop (Suc i) us) \<longrightarrow>
           map_option Inr (dict_get res (us ! i)) =
             Some (fst (health_check env self (us ! i)
               (w @ bulk_health_events self (take i us) @
                [Print (''Checking health for '' @ us ! i @ ''...'')])))) \<and>
        (distinct us \<longrightarrow>
           dict_keys res = us \<and>
           (\<forall>i<length us.
              map_option Inr (dict_get res (us ! i)) =
                Some (fst (health_check env self (us ! i)
                  (w @ bulk_health_events self (take i us) @
                   [Print (''Checking health for '' @ us ! i @ ''...'')])))))"
    by blast
next
  from bulk_loop_summary[of "\<lambda>u. deploy_integration env self u c"
      "request_of self (DeployIntegration c)"
      "\<lambda>u. ''Deploying integration to '' @ u @ ''...''" us w,
      OF deploy_integration_returns[OF assms]]
  obtain res where res:
    "bulk_deploy_integration env self us c w = (Inr res, w @ bulk_deploy_events self c us)"
    "dict_keys res = first_occurrences us"
    "\<forall>i<length us. us ! i \<notin> set (drop (Suc i) us) \<longrightarrow>
       map_option Inr (dict_get res (us ! i)) =
         Some (fst (deploy_integration env self (us ! i) c
           (w @ bulk_deploy_events self c (take i us) @
            [Print (''Deploying integration to '' @ us ! i @ ''...'')])))"
    unfolding bulk_deploy_integration_def bulk_deploy_integration_loop_eq bulk_deploy_events_def
    by blast
  from res(2,3) have
    "distinct us \<longrightarrow>
       dict_keys res = us \<and>
       (\<forall>i<length us.
          map_option Inr (dict_get res (us ! i)) =
            Some (fst (deploy_integration env self (us ! i) c
              (w @ bulk_deploy_events self c (take i us) @
               [Print (''Deploying integration to '' @ us ! i @ ''...'')]))))"
    by (simp add: first_occurrences_id distinct_not_later)
  with res show
    "\<exists>res. bulk_deploy_integration env self us c w =
          (Inr res, w @ bulk_deploy_events self c us) \<and>
        dict_keys res = first_occurrences us \<and>
        (\<forall>i<length us. us ! i \<notin> set (drop (Suc i) us) \<longrightarrow>
           map_option Inr (dict_get res (us ! i)) =
             Some (fst (deploy_integration env self (us ! i) c
               (w @ bulk_deploy_events self c (take i us) @
                [Print (''Deploying integration to '' @ us ! i @ ''...'')])))) \<and>
        (distinct us \<longrightarrow>
           dict_keys res = us \<and>
           (\<forall>i<length us.
              map_option Inr (dict_get res (us ! i)) =
                Some (fst (deploy_integration env self (us ! i) c
                  (w @ bulk_deploy_events self c (take i us) @
                   [Print (''Deploying integration to '' @ us ! i @ ''...'')])))))"
    by blast
qed

text \<open>Three instances, the second of which refuses the connection.\<close>

theorem bulk_in_order_and_isolated_witness:
  "raises_Exceptions_only (example_env (net_second_refused healthy)) \<and>
   distinct [''https://a.example.com'', ''https://b.example.com'', ''https://c.example.com''] \<and>
   bulk_health_check (example_env (net_second_refused healthy)) (init ''secret'')
     [''https://a.example.com'', ''https://b.example.com'', ''https://c.example.com''] [] =
     (Inr [(''https://a.example.com'', [(''status'', JStr ''success''), (''data'', healthy)]),
           (''https://b.example.com'',
              [(''status'', JStr ''error''), (''error'', JStr ''Connection refused'')]),
           (''https://c.example.com'', [(''status'', JStr ''success''), (''data'', healthy)])],
      bulk_health_events (init ''secret'')
        [''https://a.example.com'', ''https://b.example.com'', ''https://c.example.com'']) \<and>
   bulk_deploy_integration (example_env (net_second_refused healthy)) (init ''secret'')
     [''https://a.example.com'', ''https://b.example.com'', ''https://c.example.com'']
     demo_config [] =
     (Inr [(''https://a.example.com'', [(''status'', JStr ''success''), (''data'', healthy)]),
           (''https://b.example.com'',
              [(''status'', JStr ''error''), (''error'', JStr ''Connection refused'')]),
           (''https://c.example.com'', [(''status'', JStr ''success''), (''data'', healthy)])],
      bulk_deploy_events (init ''secret'') demo_config
        [''https://a.example.com'', ''https://b.example.com'', ''https://c.example.com''])"
  using bulk_in_order_and_isolated[OF example_env_raises_Exceptions_only, of healthy
      "init ''secret''"
      "[''https://a.example.com'', ''https://b.example.com'', ''https://c.example.com'']" "[]"
      demo_config]
    example_env_raises_Exceptions_only[of healthy]
  by (simp add: run_examples bulk_health_events_def bulk_deploy_events_def)

text \<open>
  C2 as stated speaks of every list and of every failure. With an instance listed twice,
  the success of its first turn is not in the dictionary once its second turn has failed;
  and a \<^verbatim>\<open>KeyboardInterrupt\<close> during the second instance's call leaves the loop, so that the
  third instance is never called.
\<close>

theorem repeated_instance_loses_first_result:
  "fst (health_check (example_env (net_second_refused healthy)) (init ''secret'')
          ''https://a.example.com'' [Print ''Checking health for https://a.example.com...'']) =
     Inr [(''status'', JStr ''success''), (''data'', healthy)] \<and>
   bulk_health_check (example_env (net_second_refused healthy)) (init ''secret'')
     [''https://a.example.com'', ''https://a.example.com'', ''https://b.example.com''] [] =
     (Inr [(''https://a.example.com'',
              [(''status'', JStr ''error''), (''error'', JStr ''Connection refused'')]),
           (''https://b.example.com'', [(''status'', JStr ''success''), (''data'', healthy)])],
      bulk_health_events (init ''secret'')
        [''https://a.example.com'', ''https://a.example.com'', ''https://b.example.com'']) \<and>
   bulk_health_check (example_env (net_second_interrupted healthy)) (init ''secret'')
     [''https://a.example.com'', ''https://b.example.com'', ''https://c.example.com''] [] =
     (Inl (Raised KeyboardInterrupt []),
      bulk_health_events (init ''secret'') [''https://a.example.com'', ''https://b.example.com''])"
  by (simp add: run_examples net_second_interrupted_def bulk_health_events_def)

text \<open>
  C6, as amended. The keys of the dictionary a bulk operation returns are the instances
  supplied, each once, in the order in which they first occur; an instance supplied more
  than once is called once per occurrence and has one entry, which holds the result of
  the last of its calls. For a list without repetition the keys are the list itself.
\<close>

theorem bulk_result_keys:
  assumes "raises_Exceptions_only env"
  shows
    "(\<exists>res. fst (bulk_health_check env self us w) = Inr res \<and>
        dict_keys res = first_occurrences us \<and>
        (distinct us \<longrightarrow> dict_keys res = us) \<and>
        (\<forall>i<length us. us ! i \<notin> set (drop (Suc i) us) \<longrightarrow>
           map_option Inr (dict_get res (us ! i)) =
             Some (fst (health_check env self (us ! i)
               (w @ bulk_health_events self (take i us) @
                [Print (''Checking health for '' @ us ! i @ ''...'')]))))) \<and>
     n_requests (snd (bulk_health_check env self us w)) = n_requests w + length us \<and>
     (\<exists>res. fst (bulk_deploy_integration env self us c w) = Inr res \<and>
        dict_keys res = first_occurrences us \<and>
        (distinct us \<longrightarrow> dict_keys res = us) \<and>
        (\<forall>i<length us. us ! i \<notin> set (drop (Suc i) us) \<longrightarrow>
           map_option Inr (dict_get res (us ! i)) =
             Some (fst (deploy_integration env self (us ! i) c
               (w @ bulk_deploy_events self c (take i us) @
                [Print (''Deploying integration to '' @ us ! i @ ''...'')]))))) \<and>
     n_requests (snd (bulk_deploy_integration env self us c w)) = n_requests w + length us"
proof -
  have n: "n_requests (w @ concat (map (\<lambda>u. [Print (line u), Request (rq u)]) us)) =
           n_requests w + length us" for line rq
    by (induction us) (simp_all add: n_requests_def)
  from bulk_loop_summary[of "health_check env self" "request_of self HealthCheck"
      "\<lambda>u. ''Checking health for '' @ u @ ''...''" us w, OF health_check_returns[OF assms]]
  obtain res where h:
    "bulk_health_check env self us w = (Inr res, w @ bulk_health_events self us)"
    "dict_keys res = first_occurrences us"
    "\<forall>i<length us. us ! i \<notin> set (drop (Suc i) us) \<longrightarrow>
       map_option Inr (dict_get res (us ! i)) =
         Some (fst (health_check env self (us ! i)
           (w @ bulk_health_events self (take i us) @
            [Print (''Checking health for '' @ us ! i @ ''...'')])))"
    unfolding bulk_health_check_def bulk_health_check_loop_eq bulk_health_events_def
    by blast
  from bulk_loop_summary[of "\<lambda>u. deploy_integration env self u c"
      "request_of self (DeployIntegration c)"
      "\<lambda>u. ''Deploying integration to '' @ u @ ''...''" us w,
      OF deploy_integration_returns[OF assms]]
  obtain res' where d:
    "bulk_deploy_integration env self us c w = (Inr res', w @ bulk_deploy_events self c us)"
    "dict_keys res' = first_occurrences us"
    "\<forall>i<length us. us ! i \<notin> set (drop (Suc i) us) \<longrightarrow>
       map_option Inr (dict_get res' (us ! i)) =
         Some (fst (deploy_integration env self (us ! i) c
           (w @ bulk_deploy_events self c (take i us) @
            [Print (''Deploying integration to '' @ us ! i @ ''...'')])))"
    unfolding bulk_deploy_integration_def bulk_deploy_integration_loop_eq bulk_deploy_events_def
    by blast
  have nh: "n_requests (w @ bulk_health_events self us) = n_requests w + length us"
    unfolding bulk_health_events_def by (rule n)
  have nd: "n_requests (w @ bulk_deploy_events self c us) = n_requests w + length us"
    unfolding bulk_deploy_events_def by (rule n)
  from h d nh nd show ?thesis
    by (simp add: first_occurrences_id)
qed

text \<open>
  A network that answers the \<open>n\<close>-th request with the number \<open>n\<close>: the instance listed
  first and third holds the answer to the third request.
\<close>

theorem bulk_result_keys_witness:
  "raises_Exceptions_only (example_env net_counting) \<and>
   fst (bulk_health_check (example_env net_counting) (init ''secret'')
          [''https://a.example.com'', ''https://b.example.com'', ''https://a.example.com''] []) =
     Inr [(''https://a.example.com'', [(''status'', JStr ''success''), (''data'', JInt 2)]),
          (''https://b.example.com'', [(''status'', JStr ''success''), (''data'', JInt 1)])] \<and>
   first_occurrences
     [''https://a.example.com'', ''https://b.example.com'', ''https://a.example.com''] =
     [''https://a.example.com'', ''https://b.example.com''] \<and>
   n_requests (snd (bulk_health_check (example_env net_counting) (init ''secret'')
          [''https://a.example.com'', ''https://b.example.com'', ''https://a.example.com''] [])) = 3 \<and>
   fst (bulk_deploy_integration (example_env net_counting) (init ''secret'')
          [''https://a.example.com'', ''https://b.example.com''] demo_config []) =
     Inr [(''https://a.example.com'', [(''status'', JStr ''success''), (''data'', JInt 0)]),
          (''https://b.example.com'', [(''status'', JStr ''success''), (''data'', JInt 1)])] \<and>
   distinct [''https://a.example.com'', ''https://b.example.com'']"
  using
    bulk_result_keys[OF net_counting_raises_Exceptions_only, of "init ''secret''"
      "[''https://a.example.com'', ''https://b.example.com'', ''https://a.example.com'']" "[]"
      demo_config]
    bulk_result_keys[OF net_counting_raises_Exceptions_only, of "init ''secret''"
      "[''https://a.example.com'', ''https://b.example.com'']" "[]" demo_config]
    net_counting_raises_Exceptions_only
  by (simp add: run_examples net_counting_def)

text \<open>
  C6 as stated gives every supplied reference an entry of its own. Supplied twice, an
  instance is called twice and has one entry, which holds the result of the second call.
\<close>

theorem repeated_instance_has_one_entry:
  "bulk_health_check (example_env (net_second_refused healthy)) (init ''secret'')
     [''https://a.example.com'', ''https://a.example.com''] [] =
     (Inr [(''https://a.example.com'',
              [(''status'', JStr ''error''), (''error'', JStr ''Connection refused'')])],
      bulk_health_events (init ''secret'') [''https://a.example.com'', ''https://a.example.com''])"
  by (simp add: run_examples bulk_health_events_def)

section \<open>The shape of the results\<close>

lemma result_shape_success: "result_shape [(''status'', JStr ''success''), (''data'', d)]"
  by (simp add: result_shape_def dict_get_def dict_keys_def)

lemma result_shape_error: "result_shape [(''status'', JStr ''error''), (''error'', JStr m)]"
  by (simp add: result_shape_def dict_get_def dict_keys_def)

lemma handler_shape: "handler e = Inr r \<Longrightarrow> result_shape r"
  by (auto simp: handler_def result_shape_error split: if_splits)

lemma result_of_outcome_shape: "result_of_outcome out = Inr r \<Longrightarrow> result_shape r"
  by (auto simp: result_of_outcome_def result_shape_success split: sum.splits
      dest: handler_shape)

lemma handler_not_success:
  "handler e = Inr r \<Longrightarrow> dict_get r ''status'' \<noteq> Some (JStr ''success'')"
  by (auto simp: handler_def dict_get_def split: if_splits)

lemma result_of_outcome_data:
  assumes "result_of_outcome out = Inr r"
    and "dict_get r ''status'' = Some (JStr ''success'')"
  shows "\<exists>resp d. out = Inr resp \<and> resp_json resp = Inr d \<and> dict_get r ''data'' = Some d"
  using assms
  by (auto simp: result_of_outcome_def dict_get_def split: sum.splits
      dest: handler_not_success[unfolded dict_get_def])

text \<open>
  C9. Every result a single-instance operation returns has a \<^verbatim>\<open>status\<close> that is
  \<^verbatim>\<open>success\<close> or \<^verbatim>\<open>error\<close>; it has a \<^verbatim>\<open>data\<close> field exactly when the status is \<^verbatim>\<open>success\<close>,
  and the field then holds the parsed body of the response; it has an \<^verbatim>\<open>error\<close> field
  exactly when the status is \<^verbatim>\<open>error\<close>, and the field is a string. Every value of the
  dictionary a bulk operation returns has this shape.
\<close>

theorem results_have_the_shape:
  "(fst (run env self opn u w) = Inr r \<longrightarrow>
      result_shape r \<and>
      (dict_get r ''status'' = Some (JStr ''success'') \<longrightarrow>
         (\<exists>resp d. net env (n_requests w) (request_of self opn u) = Inr resp \<and>
            resp_json resp = Inr d \<and> dict_get r ''data'' = Some d))) \<and>
   (fst (bulk_health_check env self us w) = Inr res \<longrightarrow>
      list_all (\<lambda>(k, r). result_shape r) res) \<and>
   (fst (bulk_deploy_integration env self us c w) = Inr res' \<longrightarrow>
      list_all (\<lambda>(k, r). result_shape r) res')"
proof (intro conjI impI)
  assume "fst (run env self opn u w) = Inr r"
  then have r: "result_of_outcome (net env (n_requests w) (request_of self opn u)) = Inr r"
    by (simp add: run_eq)
  then show "result_shape r" by (rule result_of_outcome_shape)
  assume "dict_get r ''status'' = Some (JStr ''success'')"
  with r show "\<exists>resp d. net env (n_requests w) (request_of self opn u) = Inr resp \<and>
            resp_json resp = Inr d \<and> dict_get r ''data'' = Some d"
    by (rule result_of_outcome_data)
next
  assume "fst (bulk_health_check env self us w) = Inr res"
  then obtain w' where
    "bulk_loop (\<lambda>u. ''Checking health for '' @ u @ ''...'') (health_check env self) us [] w =
       (Inr res, w')"
    by (cases "bulk_health_check env self us w")
      (simp add: bulk_health_check_def bulk_health_check_loop_eq)
  then show "list_all (\<lambda>(k, r). result_shape r) res"
    by (rule bulk_loop_all[rotated 2])
      (auto simp: health_check_eq dest: result_of_outcome_shape)
next
  assume "fst (bulk_deploy_integration env self us c w) = Inr res'"
  then obtain w' where
    "bulk_loop (\<lambda>u. ''Deploying integration to '' @ u @ ''...'')
       (\<lambda>u. deploy_integration env self u c) us [] w = (Inr res', w')"
    by (cases "bulk_deploy_integration env self us c w")
      (simp add: bulk_deploy_integration_def bulk_deploy_integration_loop_eq)
  then show "list_all (\<lambda>(k, r). result_shape r) res'"
    by (rule bulk_loop_all[rotated 2])
      (auto simp: deploy_integration_eq dest: result_of_outcome_shape)
qed

theorem results_have_the_shape_witness:
  "fst (run (example_env (net_second_refused healthy)) (init ''secret'') SystemInfo
          ''https://a.example.com'' []) =
     Inr [(''status'', JStr ''success''), (''data'', healthy)] \<and>
   result_shape [(''status'', JStr ''success''), (''data'', healthy)] \<and>
   fst (bulk_health_check (example_env (net_second_refused healthy)) (init ''secret'')
          [''https://a.example.com'', ''https://b.example.com''] []) =
     Inr [(''https://a.example.com'', [(''status'', JStr ''success''), (''data'', healthy)]),
          (''https://b.example.com'',
             [(''status'', JStr ''error''), (''error'', JStr ''Connection refused'')])] \<and>
   list_all (\<lambda>(k, r). result_shape r)
     [(''https://a.example.com'', [(''status'', JStr ''success''), (''data'', healthy)]),
      (''https://b.example.com'',
         [(''status'', JStr ''error''), (''error'', JStr ''Connection refused'')])]"
  using results_have_the_shape[of "example_env (net_second_refused healthy)" "init ''secret''"
      SystemInfo "''https://a.example.com''" "[]"
      "[(''status'', JStr ''success''), (''data'', healthy)]"
      "[''https://a.example.com'', ''https://b.example.com'']"
      "[(''https://a.example.com'', [(''status'', JStr ''success''), (''data'', healthy)]),
        (''https://b.example.com'',
           [(''status'', JStr ''error''), (''error'', JStr ''Connection refused'')])]"]
  by (simp add: run_examples system_info_eq)

end
